theory Spec2Isabelle
  imports Complex_Main
begin

section \<open>Numbers\<close>

text \<open>
  The program computes with Python and NumPy floats. A finite float is modelled by the
  real number it stands for: the rounding error and the finite range of binary64 are not
  part of this model. The three values that are not numbers are kept, because
  \<^verbatim>\<open>StarRating.calculate\<close> can receive and produce them.
\<close>

datatype pyfloat = Fin real | PInf | NInf | NaN

fun py_neg :: "pyfloat \<Rightarrow> pyfloat" where
  "py_neg (Fin a) = Fin (- a)"
| "py_neg PInf = NInf"
| "py_neg NInf = PInf"
| "py_neg NaN = NaN"

text \<open>\<^verbatim>\<open>a + b\<close>: opposite infinities give nan.\<close>

fun py_add :: "pyfloat \<Rightarrow> pyfloat \<Rightarrow> pyfloat" where
  "py_add (Fin a) (Fin b) = Fin (a + b)"
| "py_add (Fin a) PInf = PInf"
| "py_add (Fin a) NInf = NInf"
| "py_add PInf (Fin b) = PInf"
| "py_add PInf PInf = PInf"
| "py_add PInf NInf = NaN"
| "py_add NInf (Fin b) = NInf"
| "py_add NInf NInf = NInf"
| "py_add NInf PInf = NaN"
| "py_add NaN b = NaN"
| "py_add a NaN = NaN"

definition py_sub :: "pyfloat \<Rightarrow> pyfloat \<Rightarrow> pyfloat" where
  "py_sub a b = py_add a (py_neg b)"

text \<open>\<^verbatim>\<open>a * b\<close>: zero times an infinity gives nan.\<close>

definition inf_signed :: "real \<Rightarrow> pyfloat \<Rightarrow> pyfloat" where
  "inf_signed a i = (if a = 0 then NaN else if 0 < a then i else py_neg i)"

fun py_mul :: "pyfloat \<Rightarrow> pyfloat \<Rightarrow> pyfloat" where
  "py_mul (Fin a) (Fin b) = Fin (a * b)"
| "py_mul (Fin a) PInf = inf_signed a PInf"
| "py_mul (Fin a) NInf = inf_signed a NInf"
| "py_mul PInf (Fin b) = inf_signed b PInf"
| "py_mul NInf (Fin b) = inf_signed b NInf"
| "py_mul PInf PInf = PInf"
| "py_mul PInf NInf = NInf"
| "py_mul NInf PInf = NInf"
| "py_mul NInf NInf = PInf"
| "py_mul NaN b = NaN"
| "py_mul a NaN = NaN"

text \<open>\<^verbatim>\<open>a / c\<close> for a positive literal \<open>c\<close> (the source divides by 20 only).\<close>

fun py_div_lit :: "pyfloat \<Rightarrow> real \<Rightarrow> pyfloat" where
  "py_div_lit (Fin a) c = Fin (a / c)"
| "py_div_lit PInf c = PInf"
| "py_div_lit NInf c = NInf"
| "py_div_lit NaN c = NaN"

text \<open>
  \<^verbatim>\<open>a ** y\<close> for a positive exponent that is not an integer (the source uses 1.5).
  On a Python float a negative finite base gives a complex number, which is the result
  \<open>None\<close> here (a NumPy scalar gives nan with a warning; \<^verbatim>\<open>simulate_game\<close> passes a
  NumPy scalar, which is never negative); \<^verbatim>\<open>(-inf) ** 1.5\<close> is \<^verbatim>\<open>inf\<close>. No
  power of real numbers is out of range, so the \<open>OverflowError\<close> of a Python float
  does not occur in this arithmetic.
\<close>

fun py_pow :: "pyfloat \<Rightarrow> real \<Rightarrow> pyfloat option" where
  "py_pow (Fin a) y = (if a < 0 then None else Some (Fin (a powr y)))"
| "py_pow PInf y = Some PInf"
| "py_pow NInf y = Some PInf"
| "py_pow NaN y = Some NaN"

text \<open>
  \<^verbatim>\<open>np.log1p\<close> warns and does not raise: it is \<^verbatim>\<open>-inf\<close> at \<open>-1\<close> and
  \<^verbatim>\<open>nan\<close> below.
\<close>

fun np_log1p :: "pyfloat \<Rightarrow> pyfloat" where
  "np_log1p (Fin a) = (if a < - 1 then NaN else if a = - 1 then NInf else Fin (ln (1 + a)))"
| "np_log1p PInf = PInf"
| "np_log1p NInf = NaN"
| "np_log1p NaN = NaN"

text \<open>Comparison \<^verbatim>\<open>a < b\<close>: false whenever an operand is nan.\<close>

fun py_lt :: "pyfloat \<Rightarrow> pyfloat \<Rightarrow> bool" where
  "py_lt (Fin a) (Fin b) = (a < b)"
| "py_lt (Fin a) PInf = True"
| "py_lt (Fin a) NInf = False"
| "py_lt PInf b = False"
| "py_lt NInf (Fin b) = True"
| "py_lt NInf PInf = True"
| "py_lt NInf NInf = False"
| "py_lt NaN b = False"
| "py_lt (Fin a) NaN = False"
| "py_lt NInf NaN = False"

text \<open>
  The builtins \<^verbatim>\<open>min(a, b)\<close> and \<^verbatim>\<open>max(a, b)\<close> keep the first argument unless
  the second compares strictly below (above) it.
\<close>

definition py_min :: "pyfloat \<Rightarrow> pyfloat \<Rightarrow> pyfloat" where
  "py_min a b = (if py_lt b a then b else a)"

definition py_max :: "pyfloat \<Rightarrow> pyfloat \<Rightarrow> pyfloat" where
  "py_max a b = (if py_lt a b then b else a)"

text \<open>Rounding to the nearest integer, a tie going to the even neighbour.\<close>

definition rint :: "real \<Rightarrow> int" where
  "rint x =
     (let f = \<lfloor>x\<rfloor>; d = x - of_int f
      in if d < 1 / 2 then f
         else if 1 / 2 < d then f + 1
         else if even f then f else f + 1)"

text \<open>
  \<^verbatim>\<open>round(x, 1)\<close> on a finite number: scale by ten, round, scale back. Here the exact
  number is rounded; the program rounds the binary64 result of its sum, which near a
  decimal tie can fall on the other side.
\<close>

definition round1 :: "real \<Rightarrow> real" where
  "round1 x = of_int (rint (x * 10)) / 10"

fun py_round1 :: "pyfloat \<Rightarrow> pyfloat" where
  "py_round1 (Fin a) = Fin (round1 a)"
| "py_round1 PInf = PInf"
| "py_round1 NInf = NInf"
| "py_round1 NaN = NaN"

section \<open>Errors\<close>

text \<open>
  The source has no \<^verbatim>\<open>raise\<close> statement. What can end a call early is the
  interpreter (\<open>TypeError\<close> when \<^verbatim>\<open>min\<close> compares a complex number,
  \<open>OverflowError\<close> when a power of Python floats leaves the range of a float,
  \<open>ZeroDivisionError\<close> on a float division) or an exception raised inside one of the
  library samplers (\<open>SamplerError\<close>).
\<close>

datatype error = TypeError | OverflowError | ZeroDivisionError | SamplerError

section \<open>StarRating.calculate\<close>

definition calculate ::
  "pyfloat \<Rightarrow> pyfloat \<Rightarrow> pyfloat \<Rightarrow> pyfloat \<Rightarrow> pyfloat \<Rightarrow> error + pyfloat" where
  "calculate prob mean_diff over_consistency volatility trend_strength =
     (case py_pow (py_div_lit prob 20) (3 / 2) of
        None \<Rightarrow> Inl TypeError
      | Some pw \<Rightarrow>
          (let base = py_min (Fin 5) (py_add (Fin (1 / 2)) pw);
               adjustments =
                 py_sub
                   (py_add
                      (py_add (py_mul (Fin (8 / 10)) mean_diff)
                              (py_mul (Fin (6 / 10)) over_consistency))
                      (py_mul (Fin (4 / 10)) (np_log1p volatility)))
                   (py_mul (Fin (3 / 10)) trend_strength)
           in Inr (py_min (Fin 5) (py_max (Fin 1) (py_round1 (py_add base adjustments))))))"

subsection \<open>The rating over any float arithmetic\<close>

text \<open>
  The same function with the arithmetic of its floats as a parameter, so that a statement
  about it holds for binary64 with its rounding, range and nan as well: the float of a
  numeric literal, the four operations used, \<^verbatim>\<open>np.log1p\<close>, \<^verbatim>\<open>round(x, 1)\<close> and the
  comparison. Only the power can end the call: on Python floats it raises
  \<open>OverflowError\<close> when the result is out of range, and for a negative base it is a
  complex number, on which the comparison in \<^verbatim>\<open>min\<close> raises \<open>TypeError\<close>; on NumPy
  scalars it returns inf or nan instead.
\<close>

record 'f arith =
  f_lit :: "real \<Rightarrow> 'f"
  f_add :: "'f \<Rightarrow> 'f \<Rightarrow> 'f"
  f_sub :: "'f \<Rightarrow> 'f \<Rightarrow> 'f"
  f_mul :: "'f \<Rightarrow> 'f \<Rightarrow> 'f"
  f_div_lit :: "'f \<Rightarrow> real \<Rightarrow> 'f"
  f_pow_lit :: "'f \<Rightarrow> real \<Rightarrow> error + 'f"
  f_log1p :: "'f \<Rightarrow> 'f"
  f_round1 :: "'f \<Rightarrow> 'f"
  f_lt :: "'f \<Rightarrow> 'f \<Rightarrow> bool"

definition builtin_min :: "'f arith \<Rightarrow> 'f \<Rightarrow> 'f \<Rightarrow> 'f" where
  "builtin_min a x y = (if f_lt a y x then y else x)"

definition builtin_max :: "'f arith \<Rightarrow> 'f \<Rightarrow> 'f \<Rightarrow> 'f" where
  "builtin_max a x y = (if f_lt a x y then y else x)"

definition StarRating_calculate ::
  "'f arith \<Rightarrow> 'f \<Rightarrow> 'f \<Rightarrow> 'f \<Rightarrow> 'f \<Rightarrow> 'f \<Rightarrow> error + 'f" where
  "StarRating_calculate a prob mean_diff over_consistency volatility trend_strength =
     (case f_pow_lit a (f_div_lit a prob 20) (15 / 10) of
        Inl e \<Rightarrow> Inl e
      | Inr pw \<Rightarrow>
          (let base = builtin_min a (f_lit a 5) (f_add a (f_lit a (5 / 10)) pw);
               adjustments =
                 f_sub a
                   (f_add a
                      (f_add a (f_mul a (f_lit a (8 / 10)) mean_diff)
                               (f_mul a (f_lit a (6 / 10)) over_consistency))
                      (f_mul a (f_lit a (4 / 10)) (f_log1p a volatility)))
                   (f_mul a (f_lit a (3 / 10)) trend_strength)
           in Inr (builtin_min a (f_lit a 5)
                     (builtin_max a (f_lit a 1) (f_round1 a (f_add a base adjustments))))))"

text \<open>The arithmetic of the first section: exact on finite numbers.\<close>

definition exact :: "pyfloat arith" where
  "exact =
     \<lparr>f_lit = Fin, f_add = py_add, f_sub = py_sub, f_mul = py_mul, f_div_lit = py_div_lit,
      f_pow_lit = (\<lambda>x y. case py_pow x y of None \<Rightarrow> Inl TypeError | Some p \<Rightarrow> Inr p),
      f_log1p = np_log1p, f_round1 = py_round1, f_lt = py_lt\<rparr>"

section \<open>simulate_game\<close>

definition NBA_STD_DEV :: real where
  "NBA_STD_DEV = 125 / 10"

definition NB_R :: real where
  "NB_R = 68 / 10"

definition NUM_SIMULATIONS :: nat where
  "NUM_SIMULATIONS = 50000"

text \<open>A team is a dictionary with the keys \<^verbatim>\<open>avg\<close>, \<^verbatim>\<open>allow\<close> and \<^verbatim>\<open>over_rate\<close>.\<close>

record team =
  avg :: real
  allow :: real
  over_rate :: real

text \<open>
  The recommendation is one of two string literals of the source: the first (code points
  U+5927 U+5206, "big score") is the over label, the second (U+5C0F U+5206, "small
  score") the under label.
\<close>

datatype label = Over | Under

record result =
  combined_avg :: real
  probability :: real
  stars :: pyfloat
  mc_prob :: real
  nb_prob :: real
  poisson_prob :: real
  home_score :: real
  away_score :: real
  recommendation :: label

text \<open>
  The random source. Each sampler takes the distribution's parameters, the number of
  draws and the state of the generator, and gives back the array of draws, or \<open>None\<close>
  when the library raises, with the generator's new state.
\<close>

record 's rng =
  normal_rvs :: "real \<Rightarrow> real \<Rightarrow> nat \<Rightarrow> 's \<Rightarrow> real list option \<times> 's"
  nbinom_rvs :: "real \<Rightarrow> real \<Rightarrow> nat \<Rightarrow> 's \<Rightarrow> int list option \<times> 's"
  poisson_rvs :: "real \<Rightarrow> nat \<Rightarrow> 's \<Rightarrow> int list option \<times> 's"

definition weighted_score :: "team \<Rightarrow> real \<Rightarrow> real" where
  "weighted_score data opp_allow =
     (avg data * (7 / 10) + opp_allow * (3 / 10)) * (1 + over_rate data * (5 / 100))"

text \<open>
  Elementwise sum of two arrays, and \<^verbatim>\<open>np.mean(scores > target)\<close>, the fraction of
  the elements above the target. The arrays of the program have \<open>NUM_SIMULATIONS\<close>
  elements; the mean of an empty array (nan in NumPy) is not modelled.
\<close>

definition np_add :: "'a::plus list \<Rightarrow> 'a list \<Rightarrow> 'a list" where
  "np_add xs ys = map2 (+) xs ys"

definition np_mean_gt :: "real list \<Rightarrow> real \<Rightarrow> real" where
  "np_mean_gt scores target =
     real (length (filter (\<lambda>x. target < x) scores)) / real (length scores)"

text \<open>\<^verbatim>\<open>np.std\<close>: the square root of the mean squared deviation from the mean.\<close>

definition np_mean :: "real list \<Rightarrow> real" where
  "np_mean xs = sum_list xs / real (length xs)"

definition np_std :: "real list \<Rightarrow> real" where
  "np_std xs = sqrt (np_mean (map (\<lambda>x. (x - np_mean xs)\<^sup>2) xs))"

definition generate_nb :: "'s rng \<Rightarrow> real \<Rightarrow> 's \<Rightarrow> (error + int list) \<times> 's" where
  "generate_nb g mean s =
     (if NB_R + mean = 0 then (Inl ZeroDivisionError, s)
      else case nbinom_rvs g NB_R (NB_R / (NB_R + mean)) NUM_SIMULATIONS s of
             (None, s') \<Rightarrow> (Inl SamplerError, s')
           | (Some xs, s') \<Rightarrow> (Inr xs, s'))"

definition generate_poisson :: "'s rng \<Rightarrow> real \<Rightarrow> 's \<Rightarrow> (error + int list) \<times> 's" where
  "generate_poisson g mean s =
     (case poisson_rvs g mean NUM_SIMULATIONS s of
        (None, s') \<Rightarrow> (Inl SamplerError, s')
      | (Some xs, s') \<Rightarrow> (Inr xs, s'))"

text \<open>The call \<^verbatim>\<open>np.random.normal(mean, NBA_STD_DEV, NUM_SIMULATIONS)\<close>.\<close>

definition generate_normal :: "'s rng \<Rightarrow> real \<Rightarrow> 's \<Rightarrow> (error + real list) \<times> 's" where
  "generate_normal g mean s =
     (case normal_rvs g mean NBA_STD_DEV NUM_SIMULATIONS s of
        (None, s') \<Rightarrow> (Inl SamplerError, s')
      | (Some xs, s') \<Rightarrow> (Inr xs, s'))"

text \<open>The four signals, named as the local variables that hold them.\<close>

definition mean_diff :: "real \<Rightarrow> real \<Rightarrow> real" where
  "mean_diff combined target = (combined - target) / 5"

definition over_consistency :: "team \<Rightarrow> team \<Rightarrow> real" where
  "over_consistency home away = over_rate home + over_rate away - 1"

definition volatility :: "team \<Rightarrow> real" where
  "volatility home = np_std [avg home, allow home]"

definition trend_strength :: "team \<Rightarrow> team \<Rightarrow> real" where
  "trend_strength home away = over_rate home - over_rate away"

text \<open>
  The part of \<^verbatim>\<open>simulate_game\<close> that draws nothing, as a function of the three summed
  arrays: the three percentages, their blend, the signals, the rating and the returned
  dictionary. (The source computes each percentage right after its array; no sampler call
  depends on it.)
\<close>

definition report ::
  "team \<Rightarrow> team \<Rightarrow> real \<Rightarrow> real list \<Rightarrow> int list \<Rightarrow> int list \<Rightarrow> error + result" where
  "report home away target mc_scores nb_scores po_scores =
     (let hs = weighted_score home (allow away);
          as = weighted_score away (allow home);
          combined = hs + as;
          mc = np_mean_gt mc_scores target * 100;
          nb = np_mean_gt (map real_of_int nb_scores) target * 100;
          po = np_mean_gt (map real_of_int po_scores) target * 100;
          final_prob = mc * (4 / 10) + nb * (4 / 10) + po * (2 / 10)
      in case calculate (Fin final_prob) (Fin (mean_diff combined target))
                (Fin (over_consistency home away)) (Fin (volatility home))
                (Fin (trend_strength home away)) of
           Inl e \<Rightarrow> Inl e
         | Inr st \<Rightarrow>
             Inr \<lparr>combined_avg = combined, probability = final_prob, stars = st,
                  mc_prob = mc, nb_prob = nb, poisson_prob = po,
                  home_score = hs, away_score = as,
                  recommendation = (if 50 \<le> final_prob then Over else Under)\<rparr>)"

text \<open>
  The sampler calls in the order of the source: two normal arrays, two negative-binomial
  arrays, two Poisson arrays. The first failure ends the call.
\<close>

definition simulate_game ::
  "'s rng \<Rightarrow> 's \<Rightarrow> team \<Rightarrow> team \<Rightarrow> real \<Rightarrow> (error + result) \<times> 's" where
  "simulate_game g s0 home away target =
     (let hs = weighted_score home (allow away);
          as = weighted_score away (allow home)
      in case generate_normal g hs s0 of
           (Inl e, s1) \<Rightarrow> (Inl e, s1)
         | (Inr mc_home, s1) \<Rightarrow>
       (case generate_normal g as s1 of
           (Inl e, s2) \<Rightarrow> (Inl e, s2)
         | (Inr mc_away, s2) \<Rightarrow>
       (case generate_nb g hs s2 of
           (Inl e, s3) \<Rightarrow> (Inl e, s3)
         | (Inr nb_home, s3) \<Rightarrow>
       (case generate_nb g as s3 of
           (Inl e, s4) \<Rightarrow> (Inl e, s4)
         | (Inr nb_away, s4) \<Rightarrow>
       (case generate_poisson g hs s4 of
           (Inl e, s5) \<Rightarrow> (Inl e, s5)
         | (Inr po_home, s5) \<Rightarrow>
       (case generate_poisson g as s5 of
           (Inl e, s6) \<Rightarrow> (Inl e, s6)
         | (Inr po_away, s6) \<Rightarrow>
             (report home away target (np_add mc_home mc_away)
                (np_add nb_home nb_away) (np_add po_home po_away), s6)))))))"

section \<open>Preconditions and generators used in the statements\<close>

text \<open>
  The precondition that the specification puts on a call. The source does not test it;
  it is used to state which inputs a property is about.
\<close>

definition valid_team :: "team \<Rightarrow> bool" where
  "valid_team t \<longleftrightarrow> 0 < avg t \<and> 0 < allow t \<and> 0 \<le> over_rate t \<and> over_rate t \<le> 1"

definition valid_input :: "team \<Rightarrow> team \<Rightarrow> real \<Rightarrow> bool" where
  "valid_input home away target \<longleftrightarrow> valid_team home \<and> valid_team away \<and> 0 < target"

text \<open>
  A generator accepts the parameters of its distributions up to a bound \<open>B\<close>: a normal
  distribution with a positive scale, a negative-binomial distribution with a positive
  shape, a success probability strictly between 0 and 1 and a mean of at most \<open>B\<close>, a
  Poisson distribution with a positive rate of at most \<open>B\<close>. (The library samplers
  refuse a rate that is too large for a 64-bit count.)
\<close>

definition rng_accepts :: "real \<Rightarrow> 's rng \<Rightarrow> bool" where
  "rng_accepts B g \<longleftrightarrow>
     (\<forall>loc scale n s. 0 < scale \<longrightarrow> fst (normal_rvs g loc scale n s) \<noteq> None) \<and>
     (\<forall>r p n s. 0 < r \<and> 0 < p \<and> p < 1 \<and> r * (1 - p) / p \<le> B \<longrightarrow>
        fst (nbinom_rvs g r p n s) \<noteq> None) \<and>
     (\<forall>mu n s. 0 < mu \<and> mu \<le> B \<longrightarrow> fst (poisson_rvs g mu n s) \<noteq> None)"

text \<open>
  A generator without state for the examples: of the \<open>n\<close> draws of every array the
  first \<open>k\<close> are \<open>hi\<close> and the others are \<open>lo\<close>.
\<close>

definition draws :: "nat \<Rightarrow> 'a \<Rightarrow> 'a \<Rightarrow> nat \<Rightarrow> 'a list" where
  "draws k hi lo n = replicate (min k n) hi @ replicate (n - k) lo"

definition fixed_rng :: "nat \<Rightarrow> int \<Rightarrow> int \<Rightarrow> unit rng" where
  "fixed_rng k hi lo =
     \<lparr>normal_rvs = (\<lambda>loc scale n s. (Some (draws k (of_int hi) (of_int lo) n), s)),
      nbinom_rvs = (\<lambda>r p n s. (Some (draws k hi lo n), s)),
      poisson_rvs = (\<lambda>mu n s. (Some (draws k hi lo n), s))\<rparr>"

section \<open>Rounding and clamping\<close>

lemma rint_cases: "rint x = \<lfloor>x\<rfloor> \<or> rint x = \<lfloor>x\<rfloor> + 1"
  by (simp add: rint_def Let_def)

lemma rint_of_int: "rint (of_int n) = n"
  by (simp add: rint_def Let_def)

lemma rint_le: "x \<le> of_int n \<Longrightarrow> rint x \<le> n"
proof -
  assume h: "x \<le> of_int n"
  show ?thesis
  proof (cases "x = of_int n")
    case True
    then show ?thesis by (simp add: rint_of_int)
  next
    case False
    with h have "x < of_int n" by simp
    then have "\<lfloor>x\<rfloor> < n" by (simp add: floor_less_iff)
    with rint_cases [of x] show ?thesis by auto
  qed
qed

lemma rint_ge: "of_int n \<le> x \<Longrightarrow> n \<le> rint x"
proof -
  assume "of_int n \<le> x"
  then have "n \<le> \<lfloor>x\<rfloor>" by (simp add: le_floor_iff)
  with rint_cases [of x] show ?thesis by auto
qed

lemma round1_le_1: "x \<le> 1 \<Longrightarrow> round1 x \<le> 1"
  using rint_le [of "x * 10" 10] by (simp add: round1_def)

lemma round1_ge_5: "5 \<le> x \<Longrightarrow> 5 \<le> round1 x"
  using rint_ge [of 50 "x * 10"] by (simp add: round1_def)

lemma clamp_range: "\<exists>r. py_min (Fin 5) (py_max (Fin 1) x) = Fin r \<and> 1 \<le> r \<and> r \<le> 5"
  by (cases x) (auto simp: py_min_def py_max_def)

section \<open>The rating on finite arguments\<close>

lemma calculate_finite:
  assumes "0 \<le> prob" "- 1 < vol"
  shows "calculate (Fin prob) (Fin md) (Fin oc) (Fin vol) (Fin ts) =
    Inr (Fin (min 5 (max 1 (round1
      (min 5 (1 / 2 + (prob / 20) powr (3 / 2)) +
       (8 / 10 * md + 6 / 10 * oc + 4 / 10 * ln (1 + vol) - 3 / 10 * ts))))))"
  using assms by (auto simp: calculate_def py_min_def py_max_def py_sub_def Let_def)

lemma calculate_total:
  assumes "\<forall>p. prob = Fin p \<longrightarrow> 0 \<le> p"
  shows "\<exists>r. calculate prob md oc vol ts = Inr (Fin r) \<and> 1 \<le> r \<and> r \<le> 5"
proof -
  obtain pw where "py_pow (py_div_lit prob 20) (3 / 2) = Some pw"
    using assms by (cases prob) (auto simp: not_less [symmetric] divide_less_0_iff)
  then show ?thesis
    using clamp_range by (simp add: calculate_def Let_def)
qed

lemma calculate_floor:
  assumes "0 \<le> prob" "0 \<le> vol"
    and "min 5 (1 / 2 + (prob / 20) powr (3 / 2)) +
       (8 / 10 * md + 6 / 10 * oc + 4 / 10 * ln (1 + vol) - 3 / 10 * ts) \<le> 1"
  shows "calculate (Fin prob) (Fin md) (Fin oc) (Fin vol) (Fin ts) = Inr (Fin 1)"
  using assms round1_le_1 [OF assms(3)] by (simp add: calculate_finite max_absorb1)

lemma calculate_ceiling:
  assumes "0 \<le> prob" "0 \<le> vol"
    and "5 \<le> min 5 (1 / 2 + (prob / 20) powr (3 / 2)) +
       (8 / 10 * md + 6 / 10 * oc + 4 / 10 * ln (1 + vol) - 3 / 10 * ts)"
  shows "calculate (Fin prob) (Fin md) (Fin oc) (Fin vol) (Fin ts) = Inr (Fin 5)"
  using assms round1_ge_5 [OF assms(3)] by (simp add: calculate_finite)

lemma powr_three_halves_3: "(9 / 2 :: real) \<le> 3 powr (3 / 2)"
proof -
  have "(3::real) powr (3 / 2) = 3 powr (1 + 1 / 2)" by simp
  also have "\<dots> = 3 * sqrt 3" by (simp only: powr_add powr_half_sqrt) simp
  finally have e: "(3::real) powr (3 / 2) = 3 * sqrt 3" .
  have "(3 / 2 :: real) \<le> sqrt 3" by (rule real_le_rsqrt) (simp add: power2_eq_square)
  with e show ?thesis by simp
qed


lemma calculate_exact: "StarRating_calculate exact = calculate"
  by (intro ext)
    (simp add: StarRating_calculate_def calculate_def exact_def builtin_min_def
      builtin_max_def py_min_def py_max_def Let_def split: option.splits)

lemma calculate_sixty_high:
  assumes "60 \<le> prob" "0 \<le> vol" and "0 \<le> 8 / 10 * md + 6 / 10 * oc - 3 / 10 * ts"
  shows "calculate (Fin prob) (Fin md) (Fin oc) (Fin vol) (Fin ts) = Inr (Fin 5)"
proof -
  have "(3::real) powr (3 / 2) \<le> (prob / 20) powr (3 / 2)"
    using assms(1) by (intro powr_mono2) simp_all
  with powr_three_halves_3 have b: "min 5 (1 / 2 + (prob / 20) powr (3 / 2)) = 5" by simp
  have "0 \<le> ln (1 + vol)" using assms(2) by simp
  with assms(3) have "0 \<le> 8 / 10 * md + 6 / 10 * oc + 4 / 10 * ln (1 + vol) - 3 / 10 * ts"
    by simp
  with b have "5 \<le> min 5 (1 / 2 + (prob / 20) powr (3 / 2)) +
       (8 / 10 * md + 6 / 10 * oc + 4 / 10 * ln (1 + vol) - 3 / 10 * ts)" by simp
  with assms(1,2) show ?thesis by (intro calculate_ceiling) simp_all
qed

lemma calculate_zero_bound:
  assumes "0 \<le> vol" and "ln (1 + vol) \<le> u"
    and "8 / 10 * md + 6 / 10 * oc + 4 / 10 * u - 3 / 10 * ts \<le> 1 / 2"
  shows "calculate (Fin 0) (Fin md) (Fin oc) (Fin vol) (Fin ts) = Inr (Fin 1)"
  using assms by (intro calculate_floor) simp_all

lemma calculate_adj_high:
  assumes "0 \<le> prob" "0 \<le> vol" and "9 / 2 \<le> 8 / 10 * md + 6 / 10 * oc - 3 / 10 * ts"
  shows "calculate (Fin prob) (Fin md) (Fin oc) (Fin vol) (Fin ts) = Inr (Fin 5)"
proof -
  have "0 \<le> (prob / 20) powr (3 / 2)" by simp
  then have "1 / 2 \<le> min 5 (1 / 2 + (prob / 20) powr (3 / 2))" by simp
  moreover have "0 \<le> ln (1 + vol)" using assms(2) by simp
  ultimately have "5 \<le> min 5 (1 / 2 + (prob / 20) powr (3 / 2)) +
       (8 / 10 * md + 6 / 10 * oc + 4 / 10 * ln (1 + vol) - 3 / 10 * ts)"
    using assms(3) by linarith
  with assms(1,2) show ?thesis by (intro calculate_ceiling) simp_all
qed

lemma ln_55: "ln (55::real) \<le> 6"
proof -
  have "ln (55::real) \<le> ln 64" by simp
  also have "\<dots> = 6 * ln 2" using ln_realpow [of "2::real" 6] by simp
  also have "\<dots> \<le> 6 * 1" using ln_le_minus_one [of "2::real"] by simp
  finally show ?thesis by simp
qed

section \<open>Arrays\<close>

lemma np_std_pair: "np_std [a, b] = \<bar>a - b\<bar> / 2"
proof -
  have "np_mean [a, b] = (a + b) / 2" by (simp add: np_mean_def)
  then have "np_mean (map (\<lambda>x. (x - np_mean [a, b])\<^sup>2) [a, b]) = ((a - b) / 2)\<^sup>2"
    by (simp add: np_mean_def power2_eq_square field_simps)
  then show ?thesis by (simp add: np_std_def del: power_divide)
qed

lemma np_mean_gt_bounds: "0 \<le> np_mean_gt xs t \<and> np_mean_gt xs t \<le> 1"
proof -
  have "length (filter (\<lambda>x. t < x) xs) \<le> length xs" by simp
  then show ?thesis
    unfolding np_mean_gt_def
    by (cases "xs = []") (simp_all add: divide_le_eq_1)
qed

lemma blend_bounds:
  assumes "0 \<le> a \<and> a \<le> (1::real)" "0 \<le> b \<and> b \<le> 1" "0 \<le> c \<and> c \<le> 1"
  shows "0 \<le> a * 100 * (4 / 10) + b * 100 * (4 / 10) + c * 100 * (2 / 10)"
    and "a * 100 * (4 / 10) + b * 100 * (4 / 10) + c * 100 * (2 / 10) \<le> 100"
  using assms by simp_all

section \<open>What a returned result holds\<close>

lemma report_fields:
  assumes "report home away target mc nb po = Inr res"
  shows "home_score res = weighted_score home (allow away)"
    and "away_score res = weighted_score away (allow home)"
    and "combined_avg res = home_score res + away_score res"
    and "mc_prob res = np_mean_gt mc target * 100"
    and "nb_prob res = np_mean_gt (map real_of_int nb) target * 100"
    and "poisson_prob res = np_mean_gt (map real_of_int po) target * 100"
    and "probability res =
           mc_prob res * (4 / 10) + nb_prob res * (4 / 10) + poisson_prob res * (2 / 10)"
    and "recommendation res = (if 50 \<le> probability res then Over else Under)"
    and "calculate (Fin (probability res)) (Fin (mean_diff (combined_avg res) target))
           (Fin (over_consistency home away)) (Fin (volatility home))
           (Fin (trend_strength home away)) = Inr (stars res)"
  using assms by (auto simp: report_def Let_def split: sum.splits)

lemma report_returns: "\<exists>res. report home away target mc nb po = Inr res"
proof -
  let ?p = "np_mean_gt mc target * 100 * (4 / 10) +
      np_mean_gt (map real_of_int nb) target * 100 * (4 / 10) +
      np_mean_gt (map real_of_int po) target * 100 * (2 / 10)"
  have "0 \<le> ?p"
    by (rule blend_bounds(1)) (rule np_mean_gt_bounds)+
  then obtain r where "calculate (Fin ?p)
      (Fin (mean_diff (weighted_score home (allow away) + weighted_score away (allow home)) target))
      (Fin (over_consistency home away)) (Fin (volatility home))
      (Fin (trend_strength home away)) = Inr (Fin r)"
    using calculate_total by (metis pyfloat.inject)
  then show ?thesis by (simp add: report_def Let_def)
qed

lemma simulate_game_report:
  assumes "fst (simulate_game g s home away target) = Inr res"
  shows "\<exists>mc nb po. report home away target mc nb po = Inr res"
  using assms
  by (auto simp: simulate_game_def Let_def split: prod.splits sum.splits)

lemma simulate_game_fields:
  assumes "fst (simulate_game g s home away target) = Inr res"
  shows "home_score res = weighted_score home (allow away)"
    and "away_score res = weighted_score away (allow home)"
    and "combined_avg res = home_score res + away_score res"
    and "probability res =
           mc_prob res * (4 / 10) + nb_prob res * (4 / 10) + poisson_prob res * (2 / 10)"
    and "recommendation res = (if 50 \<le> probability res then Over else Under)"
    and "calculate (Fin (probability res)) (Fin (mean_diff (combined_avg res) target))
           (Fin (over_consistency home away)) (Fin (volatility home))
           (Fin (trend_strength home away)) = Inr (stars res)"
    and "0 \<le> mc_prob res \<and> mc_prob res \<le> 100"
    and "0 \<le> nb_prob res \<and> nb_prob res \<le> 100"
    and "0 \<le> poisson_prob res \<and> poisson_prob res \<le> 100"
proof -
  obtain mc nb po where r: "report home away target mc nb po = Inr res"
    using simulate_game_report [OF assms] by blast
  show "home_score res = weighted_score home (allow away)"
    and "away_score res = weighted_score away (allow home)"
    and "combined_avg res = home_score res + away_score res"
    and "probability res =
           mc_prob res * (4 / 10) + nb_prob res * (4 / 10) + poisson_prob res * (2 / 10)"
    and "recommendation res = (if 50 \<le> probability res then Over else Under)"
    and "calculate (Fin (probability res)) (Fin (mean_diff (combined_avg res) target))
           (Fin (over_consistency home away)) (Fin (volatility home))
           (Fin (trend_strength home away)) = Inr (stars res)"
    using report_fields [OF r] by simp_all
  show "0 \<le> mc_prob res \<and> mc_prob res \<le> 100"
    using report_fields(4) [OF r] np_mean_gt_bounds [of mc target] by simp
  show "0 \<le> nb_prob res \<and> nb_prob res \<le> 100"
    using report_fields(5) [OF r] np_mean_gt_bounds [of "map real_of_int nb" target] by simp
  show "0 \<le> poisson_prob res \<and> poisson_prob res \<le> 100"
    using report_fields(6) [OF r] np_mean_gt_bounds [of "map real_of_int po" target] by simp
qed

section \<open>Runs with the fixed generator\<close>

lemma np_add_draws: "np_add (draws k a b n) (draws k c d n) = draws k (a + c) (b + d) n"
  by (simp add: np_add_def draws_def)

lemma map_draws: "map f (draws k a b n) = draws k (f a) (f b) n"
  by (simp add: draws_def)

lemma np_mean_gt_draws:
  "np_mean_gt (draws k hi lo n) t =
     (real (if t < hi then min k n else 0) + real (if t < lo then n - k else 0)) / real n"
proof -
  have "length (filter (\<lambda>x. t < x) (draws k hi lo n)) =
      (if t < hi then min k n else 0) + (if t < lo then n - k else 0)"
    by (simp add: draws_def filter_replicate)
  moreover have "length (draws k hi lo n) = n" by (simp add: draws_def)
  ultimately show ?thesis by (simp add: np_mean_gt_def)
qed

lemma simulate_game_fixed:
  assumes "NB_R + weighted_score home (allow away) \<noteq> 0"
    and "NB_R + weighted_score away (allow home) \<noteq> 0"
  shows "simulate_game (fixed_rng k hi lo) () home away target =
     (report home away target
        (draws k (2 * of_int hi) (2 * of_int lo) NUM_SIMULATIONS)
        (draws k (2 * hi) (2 * lo) NUM_SIMULATIONS)
        (draws k (2 * hi) (2 * lo) NUM_SIMULATIONS), ())"
  using assms
  by (simp add: simulate_game_def Let_def generate_normal_def generate_nb_def
      generate_poisson_def fixed_rng_def np_add_draws)

lemma rng_accepts_fixed: "rng_accepts B (fixed_rng k hi lo)"
  by (simp add: rng_accepts_def fixed_rng_def)

text \<open>The runs that the examples below refer to.\<close>

lemmas run_simps = report_def Let_def map_draws np_mean_gt_draws NUM_SIMULATIONS_def
  weighted_score_def mean_diff_def over_consistency_def trend_strength_def
  volatility_def np_std_pair

lemma run_A:
  "fst (simulate_game (fixed_rng 10000 110 100) ()
     \<lparr>avg = 100, allow = 100, over_rate = 1 / 2\<rparr>
     \<lparr>avg = 110, allow = 110, over_rate = 2 / 5\<rparr> 210) =
   Inr \<lparr>combined_avg = 42943 / 200, probability = 20, stars = Fin (22 / 10),
        mc_prob = 20, nb_prob = 20, poisson_prob = 20,
        home_score = 4223 / 40, away_score = 5457 / 50, recommendation = Under\<rparr>"
proof -
  have r: "round1 (5411 / 2500) = 11 / 5"
    by (simp add: round1_def rint_def)
  show ?thesis
    apply (subst simulate_game_fixed)
      apply (simp add: NB_R_def weighted_score_def)
     apply (simp add: NB_R_def weighted_score_def)
    apply (simp add: run_simps calculate_finite r)
    done
qed

lemma run_B:
  "fst (simulate_game (fixed_rng 10000 110 100) ()
     \<lparr>avg = 110, allow = 110, over_rate = 2 / 5\<rparr>
     \<lparr>avg = 100, allow = 100, over_rate = 1 / 2\<rparr> 210) =
   Inr \<lparr>combined_avg = 42943 / 200, probability = 20, stars = Fin (22 / 10),
        mc_prob = 20, nb_prob = 20, poisson_prob = 20,
        home_score = 5457 / 50, away_score = 4223 / 40, recommendation = Under\<rparr>"
proof -
  have r: "round1 (5561 / 2500) = 11 / 5"
    by (simp add: round1_def rint_def)
  show ?thesis
    apply (subst simulate_game_fixed)
      apply (simp add: NB_R_def weighted_score_def)
     apply (simp add: NB_R_def weighted_score_def)
    apply (simp add: run_simps calculate_finite r)
    done
qed

lemma run_tie:
  "fst (simulate_game (fixed_rng 25000 100 80) ()
     \<lparr>avg = 100, allow = 100, over_rate = 1 / 2\<rparr>
     \<lparr>avg = 110, allow = 110, over_rate = 2 / 5\<rparr> 180) =
   Inr \<lparr>combined_avg = 42943 / 200, probability = 50, stars = Fin 5,
        mc_prob = 50, nb_prob = 50, poisson_prob = 50,
        home_score = 4223 / 40, away_score = 5457 / 50, recommendation = Over\<rparr>"
  apply (subst simulate_game_fixed)
    apply (simp add: NB_R_def weighted_score_def)
   apply (simp add: NB_R_def weighted_score_def)
  apply (simp add: run_simps calculate_adj_high)
  done

lemma run_example:
  "fst (simulate_game (fixed_rng 30000 120 105) ()
     \<lparr>avg = 110, allow = 108, over_rate = 55 / 100\<rparr>
     \<lparr>avg = 112, allow = 111, over_rate = 1 / 2\<rparr> (2255 / 10)) =
   Inr \<lparr>combined_avg = 907613 / 4000, probability = 60, stars = Fin 5,
        mc_prob = 60, nb_prob = 60, poisson_prob = 60,
        home_score = 453333 / 4000, away_score = 11357 / 100, recommendation = Over\<rparr>"
  apply (subst simulate_game_fixed)
    apply (simp add: NB_R_def weighted_score_def)
   apply (simp add: NB_R_def weighted_score_def)
  apply (simp add: run_simps calculate_sixty_high)
  done

lemma run_zero_avg:
  "fst (simulate_game (fixed_rng 0 120 100) ()
     \<lparr>avg = 0, allow = 108, over_rate = 55 / 100\<rparr>
     \<lparr>avg = 112, allow = 111, over_rate = 1 / 2\<rparr> (2255 / 10)) =
   Inr \<lparr>combined_avg = 591143 / 4000, probability = 0, stars = Fin 1,
        mc_prob = 0, nb_prob = 0, poisson_prob = 0,
        home_score = 136863 / 4000, away_score = 11357 / 100, recommendation = Under\<rparr>"
proof -
  have c: "calculate (Fin 0) (Fin (- (310857 / 20000))) (Fin (1 / 20)) (Fin 54) (Fin (1 / 20)) =
      Inr (Fin 1)"
    by (rule calculate_zero_bound [where u = 6]) (simp_all add: ln_55)
  show ?thesis
    apply (subst simulate_game_fixed)
      apply (simp add: NB_R_def weighted_score_def)
     apply (simp add: NB_R_def weighted_score_def)
    apply (simp add: run_simps c)
    done
qed

lemma run_negative_target:
  "fst (simulate_game (fixed_rng 30000 120 105) ()
     \<lparr>avg = 110, allow = 108, over_rate = 55 / 100\<rparr>
     \<lparr>avg = 112, allow = 111, over_rate = 1 / 2\<rparr> (- 5)) =
   Inr \<lparr>combined_avg = 907613 / 4000, probability = 100, stars = Fin 5,
        mc_prob = 100, nb_prob = 100, poisson_prob = 100,
        home_score = 453333 / 4000, away_score = 11357 / 100, recommendation = Over\<rparr>"
  apply (subst simulate_game_fixed)
    apply (simp add: NB_R_def weighted_score_def)
   apply (simp add: NB_R_def weighted_score_def)
  apply (simp add: run_simps calculate_sixty_high)
  done

lemma run_higher_avg:
  "fst (simulate_game (fixed_rng 30000 110 100) ()
     \<lparr>avg = 120, allow = 100, over_rate = 1 / 2\<rparr>
     \<lparr>avg = 110, allow = 110, over_rate = 2 / 5\<rparr> 210) =
   Inr \<lparr>combined_avg = 45813 / 200, probability = 60, stars = Fin 5,
        mc_prob = 60, nb_prob = 60, poisson_prob = 60,
        home_score = 4797 / 40, away_score = 5457 / 50, recommendation = Over\<rparr>"
  apply (subst simulate_game_fixed)
    apply (simp add: NB_R_def weighted_score_def)
   apply (simp add: NB_R_def weighted_score_def)
  apply (simp add: run_simps calculate_sixty_high)
  done

section \<open>The samplers on parameters in their domain\<close>

lemma generate_normal_accepts:
  assumes "rng_accepts B g"
  shows "\<exists>xs s'. generate_normal g m s = (Inr xs, s')"
proof -
  have "fst (normal_rvs g m NBA_STD_DEV NUM_SIMULATIONS s) \<noteq> None"
    using assms by (simp add: rng_accepts_def NBA_STD_DEV_def)
  then show ?thesis
    by (cases "normal_rvs g m NBA_STD_DEV NUM_SIMULATIONS s") (auto simp: generate_normal_def)
qed

lemma generate_nb_accepts:
  assumes "rng_accepts B g" "0 < m" "m \<le> B"
  shows "\<exists>xs s'. generate_nb g m s = (Inr xs, s')"
proof -
  let ?p = "NB_R / (NB_R + m)"
  have p: "0 < ?p" "?p < 1" "0 < NB_R" "NB_R + m \<noteq> 0"
    using assms(2) by (simp_all add: NB_R_def)
  have "NB_R * (1 - ?p) / ?p = m"
    using assms(2) by (simp add: NB_R_def field_simps)
  with assms(3) have "NB_R * (1 - ?p) / ?p \<le> B" by simp
  with p have "fst (nbinom_rvs g NB_R ?p NUM_SIMULATIONS s) \<noteq> None"
    using assms(1) by (simp add: rng_accepts_def)
  then show ?thesis
    using \<open>NB_R + m \<noteq> 0\<close>
    by (cases "nbinom_rvs g NB_R ?p NUM_SIMULATIONS s") (auto simp: generate_nb_def)
qed

lemma generate_poisson_accepts:
  assumes "rng_accepts B g" "0 < m" "m \<le> B"
  shows "\<exists>xs s'. generate_poisson g m s = (Inr xs, s')"
proof -
  have "fst (poisson_rvs g m NUM_SIMULATIONS s) \<noteq> None"
    using assms by (simp add: rng_accepts_def)
  then show ?thesis
    by (cases "poisson_rvs g m NUM_SIMULATIONS s") (auto simp: generate_poisson_def)
qed

section \<open>Input validation of simulate_game (C1)\<close>

text \<open>
  C1, as the specification states it: a call of \<^verbatim>\<open>simulate_game\<close> whose input
  violates the preconditions (an average or an allowance that is not positive, a target
  that is not positive, an over rate outside [0, 1]) fails with an invalid-input error
  before any sampling, and never produces a result. The code does not do this. With home
  average 0, and with target -5, the call runs the samplers and returns a result.
\<close>

theorem simulate_game_accepts_invalid_input:
  "\<not> valid_input \<lparr>avg = 0, allow = 108, over_rate = 55 / 100\<rparr>
       \<lparr>avg = 112, allow = 111, over_rate = 1 / 2\<rparr> (2255 / 10) \<and>
   fst (simulate_game (fixed_rng 0 120 100) ()
     \<lparr>avg = 0, allow = 108, over_rate = 55 / 100\<rparr>
     \<lparr>avg = 112, allow = 111, over_rate = 1 / 2\<rparr> (2255 / 10)) =
   Inr \<lparr>combined_avg = 591143 / 4000, probability = 0, stars = Fin 1,
        mc_prob = 0, nb_prob = 0, poisson_prob = 0,
        home_score = 136863 / 4000, away_score = 11357 / 100, recommendation = Under\<rparr> \<and>
   \<not> valid_input \<lparr>avg = 110, allow = 108, over_rate = 55 / 100\<rparr>
       \<lparr>avg = 112, allow = 111, over_rate = 1 / 2\<rparr> (- 5) \<and>
   fst (simulate_game (fixed_rng 30000 120 105) ()
     \<lparr>avg = 110, allow = 108, over_rate = 55 / 100\<rparr>
     \<lparr>avg = 112, allow = 111, over_rate = 1 / 2\<rparr> (- 5)) =
   Inr \<lparr>combined_avg = 907613 / 4000, probability = 100, stars = Fin 5,
        mc_prob = 100, nb_prob = 100, poisson_prob = 100,
        home_score = 453333 / 4000, away_score = 11357 / 100, recommendation = Over\<rparr>"
  using run_zero_avg run_negative_target by (simp add: valid_input_def valid_team_def)

text \<open>
  C1, as the code behaves: \<^verbatim>\<open>simulate_game\<close> tests no precondition. A call whose two
  weighted scores are positive and at most \<open>B\<close>, with samplers that accept every
  positive rate and mean up to \<open>B\<close>, returns a result, whatever the target is and
  whether or not the averages, the allowances and the over rates meet the preconditions.
\<close>

theorem simulate_game_checks_nothing:
  assumes "rng_accepts B g"
    and "0 < weighted_score home (allow away)" and "weighted_score home (allow away) \<le> B"
    and "0 < weighted_score away (allow home)" and "weighted_score away (allow home) \<le> B"
  shows "\<exists>res. fst (simulate_game g s home away target) = Inr res"
proof -
  let ?hs = "weighted_score home (allow away)"
  let ?as = "weighted_score away (allow home)"
  obtain a s1 where 1: "generate_normal g ?hs s = (Inr a, s1)"
    using generate_normal_accepts [OF assms(1)] by blast
  obtain b s2 where 2: "generate_normal g ?as s1 = (Inr b, s2)"
    using generate_normal_accepts [OF assms(1)] by blast
  obtain c s3 where 3: "generate_nb g ?hs s2 = (Inr c, s3)"
    using generate_nb_accepts [OF assms(1,2,3)] by blast
  obtain d s4 where 4: "generate_nb g ?as s3 = (Inr d, s4)"
    using generate_nb_accepts [OF assms(1,4,5)] by blast
  obtain e s5 where 5: "generate_poisson g ?hs s4 = (Inr e, s5)"
    using generate_poisson_accepts [OF assms(1,2,3)] by blast
  obtain f s6 where 6: "generate_poisson g ?as s5 = (Inr f, s6)"
    using generate_poisson_accepts [OF assms(1,4,5)] by blast
  have "fst (simulate_game g s home away target) =
      report home away target (np_add a b) (np_add c d) (np_add e f)"
    by (simp add: simulate_game_def Let_def 1 2 3 4 5 6)
  then show ?thesis using report_returns by simp
qed

theorem simulate_game_checks_nothing_witness:
  "rng_accepts 1000 (fixed_rng 0 120 100) \<and>
   0 < weighted_score \<lparr>avg = 0, allow = 108, over_rate = 55 / 100\<rparr>
         (allow \<lparr>avg = 112, allow = 111, over_rate = 1 / 2\<rparr>) \<and>
   weighted_score \<lparr>avg = 0, allow = 108, over_rate = 55 / 100\<rparr>
         (allow \<lparr>avg = 112, allow = 111, over_rate = 1 / 2\<rparr>) \<le> 1000 \<and>
   0 < weighted_score \<lparr>avg = 112, allow = 111, over_rate = 1 / 2\<rparr>
         (allow \<lparr>avg = 0, allow = 108, over_rate = 55 / 100\<rparr>) \<and>
   weighted_score \<lparr>avg = 112, allow = 111, over_rate = 1 / 2\<rparr>
         (allow \<lparr>avg = 0, allow = 108, over_rate = 55 / 100\<rparr>) \<le> 1000 \<and>
   (\<exists>res. fst (simulate_game (fixed_rng 0 120 100) ()
      \<lparr>avg = 0, allow = 108, over_rate = 55 / 100\<rparr>
      \<lparr>avg = 112, allow = 111, over_rate = 1 / 2\<rparr> (- 5)) = Inr res)"
proof -
  have a: "rng_accepts 1000 (fixed_rng 0 120 100)" by (rule rng_accepts_fixed)
  have b: "0 < weighted_score \<lparr>avg = 0, allow = 108, over_rate = 55 / 100\<rparr>
         (allow \<lparr>avg = 112, allow = 111, over_rate = 1 / 2\<rparr>)"
    by (simp add: weighted_score_def)
  have b': "weighted_score \<lparr>avg = 0, allow = 108, over_rate = 55 / 100\<rparr>
         (allow \<lparr>avg = 112, allow = 111, over_rate = 1 / 2\<rparr>) \<le> 1000"
    by (simp add: weighted_score_def)
  have c: "0 < weighted_score \<lparr>avg = 112, allow = 111, over_rate = 1 / 2\<rparr>
         (allow \<lparr>avg = 0, allow = 108, over_rate = 55 / 100\<rparr>)"
    by (simp add: weighted_score_def)
  have c': "weighted_score \<lparr>avg = 112, allow = 111, over_rate = 1 / 2\<rparr>
         (allow \<lparr>avg = 0, allow = 108, over_rate = 55 / 100\<rparr>) \<le> 1000"
    by (simp add: weighted_score_def)
  show ?thesis
    using a b b' c c' simulate_game_checks_nothing [OF a b b' c c'] by blast
qed

section \<open>The rating formula (C2)\<close>



section \<open>Expected scores (C3)\<close>

text \<open>
  C3: the expected score of a team facing an opponent that allows \<open>oppAllow\<close> points is
  \<open>(avg * 0.7 + oppAllow * 0.3) * (1 + over_rate * 0.05)\<close>, taken for the home team with
  the away team's allowance and for the away team with the home team's allowance, and the
  combined average is their sum. For home (110, 108, 0.55) and away (112, 111, 0.50) the
  home score is 110.3 * 1.0275, the away score is 110.8 * 1.025 and the combined average
  is 226.90325, within 0.01 of 226.91.
\<close>

theorem expected_scores:
  assumes "fst (simulate_game g s home away target) = Inr res"
  shows "home_score res =
           (avg home * (7 / 10) + allow away * (3 / 10)) * (1 + over_rate home * (5 / 100)) \<and>
         away_score res =
           (avg away * (7 / 10) + allow home * (3 / 10)) * (1 + over_rate away * (5 / 100)) \<and>
         combined_avg res = home_score res + away_score res \<and>
         (home = \<lparr>avg = 110, allow = 108, over_rate = 55 / 100\<rparr> \<and>
          away = \<lparr>avg = 112, allow = 111, over_rate = 50 / 100\<rparr> \<longrightarrow>
            home_score res = 1103 / 10 * (10275 / 10000) \<and>
            away_score res = 1108 / 10 * (1025 / 1000) \<and>
            combined_avg res = 22690325 / 100000 \<and>
            \<bar>combined_avg res - 22691 / 100\<bar> < 1 / 100)"
  using simulate_game_fields(1-3) [OF assms]
  by (auto simp: weighted_score_def)

theorem expected_scores_witness:
  "fst (simulate_game (fixed_rng 30000 120 105) ()
     \<lparr>avg = 110, allow = 108, over_rate = 55 / 100\<rparr>
     \<lparr>avg = 112, allow = 111, over_rate = 50 / 100\<rparr> (2255 / 10)) =
   Inr \<lparr>combined_avg = 907613 / 4000, probability = 60, stars = Fin 5,
        mc_prob = 60, nb_prob = 60, poisson_prob = 60,
        home_score = 453333 / 4000, away_score = 11357 / 100, recommendation = Over\<rparr> \<and>
   (453333 / 4000 :: real) = 1103 / 10 * (10275 / 10000) \<and>
   (11357 / 100 :: real) = 1108 / 10 * (1025 / 1000) \<and>
   \<bar>907613 / 4000 - 22691 / 100\<bar> < (1 / 100 :: real)"
proof -
  have r: "fst (simulate_game (fixed_rng 30000 120 105) ()
     \<lparr>avg = 110, allow = 108, over_rate = 55 / 100\<rparr>
     \<lparr>avg = 112, allow = 111, over_rate = 50 / 100\<rparr> (2255 / 10)) =
   Inr \<lparr>combined_avg = 907613 / 4000, probability = 60, stars = Fin 5,
        mc_prob = 60, nb_prob = 60, poisson_prob = 60,
        home_score = 453333 / 4000, away_score = 11357 / 100, recommendation = Over\<rparr>"
    using run_example by simp
  show ?thesis using r expected_scores [OF r] by simp
qed

section \<open>Fusion of the three probabilities (C4)\<close>

text \<open>
  C4: the fused probability of a call is 0.4 times the Monte Carlo probability plus 0.4
  times the negative-binomial probability plus 0.2 times the Poisson probability of that
  call.
\<close>

theorem fused_probability:
  assumes "fst (simulate_game g s home away target) = Inr res"
  shows "probability res =
           4 / 10 * mc_prob res + 4 / 10 * nb_prob res + 2 / 10 * poisson_prob res"
  using simulate_game_fields(4) [OF assms] by simp

theorem fused_probability_witness:
  "fst (simulate_game (fixed_rng 10000 110 100) ()
     \<lparr>avg = 100, allow = 100, over_rate = 1 / 2\<rparr>
     \<lparr>avg = 110, allow = 110, over_rate = 2 / 5\<rparr> 210) =
   Inr \<lparr>combined_avg = 42943 / 200, probability = 20, stars = Fin (22 / 10),
        mc_prob = 20, nb_prob = 20, poisson_prob = 20,
        home_score = 4223 / 40, away_score = 5457 / 50, recommendation = Under\<rparr> \<and>
   (20 :: real) = 4 / 10 * 20 + 4 / 10 * 20 + 2 / 10 * 20"
  using run_A fused_probability [OF run_A] by simp

section \<open>The recommendation (C5)\<close>

text \<open>
  C5: the recommendation is the over label exactly when the fused probability is at least
  50, and the under label otherwise; at exactly 50 it is the over label.
\<close>

theorem recommendation_rule:
  assumes "fst (simulate_game g s home away target) = Inr res"
  shows "(recommendation res = Over \<longleftrightarrow> 50 \<le> probability res) \<and>
         (recommendation res = Under \<longleftrightarrow> probability res < 50) \<and>
         (probability res = 50 \<longrightarrow> recommendation res = Over)"
  using simulate_game_fields(5) [OF assms] by auto

theorem recommendation_rule_witness:
  "fst (simulate_game (fixed_rng 25000 100 80) ()
     \<lparr>avg = 100, allow = 100, over_rate = 1 / 2\<rparr>
     \<lparr>avg = 110, allow = 110, over_rate = 2 / 5\<rparr> 180) =
   Inr \<lparr>combined_avg = 42943 / 200, probability = 50, stars = Fin 5,
        mc_prob = 50, nb_prob = 50, poisson_prob = 50,
        home_score = 4223 / 40, away_score = 5457 / 50, recommendation = Over\<rparr> \<and>
   (50 :: real) = 50 \<and> Over = Over"
  using run_tie recommendation_rule [OF run_tie] by simp

section \<open>Ranges of the result (C6)\<close>

text \<open>
  C6: a returned result has each model probability and the fused probability in [0, 100]
  and a star rating in [1, 5]. The rating is 1 at probability 0 whenever the adjustment is
  at most 0.5 (a mean difference that is negative enough), and it is 5 whenever base plus
  adjustment reaches 5.
\<close>

theorem result_ranges:
  "(fst (simulate_game g s home away target) = Inr res \<longrightarrow>
      0 \<le> probability res \<and> probability res \<le> 100 \<and>
      0 \<le> mc_prob res \<and> mc_prob res \<le> 100 \<and>
      0 \<le> nb_prob res \<and> nb_prob res \<le> 100 \<and>
      0 \<le> poisson_prob res \<and> poisson_prob res \<le> 100 \<and>
      (\<exists>r. stars res = Fin r \<and> 1 \<le> r \<and> r \<le> 5)) \<and>
   (0 \<le> vol \<and> 8 / 10 * md + 6 / 10 * oc + 4 / 10 * ln (1 + vol) - 3 / 10 * ts \<le> 1 / 2 \<longrightarrow>
      calculate (Fin 0) (Fin md) (Fin oc) (Fin vol) (Fin ts) = Inr (Fin 1)) \<and>
   (0 \<le> prob \<and> 0 \<le> vol' \<and>
    5 \<le> min 5 (1 / 2 + (prob / 20) powr (3 / 2)) +
          (8 / 10 * md' + 6 / 10 * oc' + 4 / 10 * ln (1 + vol') - 3 / 10 * ts') \<longrightarrow>
      calculate (Fin prob) (Fin md') (Fin oc') (Fin vol') (Fin ts') = Inr (Fin 5))"
proof (intro conjI impI)
  assume a: "fst (simulate_game g s home away target) = Inr res"
  note f = simulate_game_fields [OF a]
  from f(7,8,9) f(4) show "0 \<le> probability res" by simp
  from f(7,8,9) f(4) show "probability res \<le> 100" by simp
  from f(7) show "0 \<le> mc_prob res" "mc_prob res \<le> 100" by simp_all
  from f(8) show "0 \<le> nb_prob res" "nb_prob res \<le> 100" by simp_all
  from f(9) show "0 \<le> poisson_prob res" "poisson_prob res \<le> 100" by simp_all
  have "\<forall>p. Fin (probability res) = Fin p \<longrightarrow> 0 \<le> p"
    using \<open>0 \<le> probability res\<close> by simp
  from calculate_total [OF this] f(6)
  show "\<exists>r. stars res = Fin r \<and> 1 \<le> r \<and> r \<le> 5" by (metis sum.inject(2))
next
  assume "0 \<le> vol \<and> 8 / 10 * md + 6 / 10 * oc + 4 / 10 * ln (1 + vol) - 3 / 10 * ts \<le> 1 / 2"
  then show "calculate (Fin 0) (Fin md) (Fin oc) (Fin vol) (Fin ts) = Inr (Fin 1)"
    by (intro calculate_floor) simp_all
next
  assume "0 \<le> prob \<and> 0 \<le> vol' \<and>
    5 \<le> min 5 (1 / 2 + (prob / 20) powr (3 / 2)) +
          (8 / 10 * md' + 6 / 10 * oc' + 4 / 10 * ln (1 + vol') - 3 / 10 * ts')"
  then show "calculate (Fin prob) (Fin md') (Fin oc') (Fin vol') (Fin ts') = Inr (Fin 5)"
    by (intro calculate_ceiling) simp_all
qed

theorem result_ranges_witness:
  "fst (simulate_game (fixed_rng 10000 110 100) ()
     \<lparr>avg = 100, allow = 100, over_rate = 1 / 2\<rparr>
     \<lparr>avg = 110, allow = 110, over_rate = 2 / 5\<rparr> 210) =
   Inr \<lparr>combined_avg = 42943 / 200, probability = 20, stars = Fin (22 / 10),
        mc_prob = 20, nb_prob = 20, poisson_prob = 20,
        home_score = 4223 / 40, away_score = 5457 / 50, recommendation = Under\<rparr> \<and>
   (0 :: real) \<le> 20 \<and> (20 :: real) \<le> 100 \<and> (1 :: real) \<le> 22 / 10 \<and> (22 / 10 :: real) \<le> 5 \<and>
   calculate (Fin 0) (Fin (- 100)) (Fin 0) (Fin 0) (Fin 0) = Inr (Fin 1) \<and>
   calculate (Fin 100) (Fin 100) (Fin 0) (Fin 0) (Fin 0) = Inr (Fin 5)"
  using run_A
    result_ranges [of "fixed_rng 10000 110 100" "()"
      "\<lparr>avg = 100, allow = 100, over_rate = 1 / 2\<rparr>"
      "\<lparr>avg = 110, allow = 110, over_rate = 2 / 5\<rparr>" 210
      "\<lparr>combined_avg = 42943 / 200, probability = 20, stars = Fin (22 / 10),
        mc_prob = 20, nb_prob = 20, poisson_prob = 20,
        home_score = 4223 / 40, away_score = 5457 / 50, recommendation = Under\<rparr>"
      0 "- 100" 0 0 100 0 100 0 0]
  by simp

section \<open>Arguments of the rating that are not finite (C7)\<close>

text \<open>
  C7, as the specification states it: \<^verbatim>\<open>StarRating.calculate\<close> never fails on finite
  arguments, and treats an argument that is nan or infinite as invalid input instead of
  returning a rating. The code has no such guard: with a nan probability it returns 5,
  with a nan mean difference 1, with an infinite mean difference 5 or 1.
\<close>

theorem calculate_accepts_non_finite:
  "calculate NaN (Fin 0) (Fin 0) (Fin 0) (Fin 0) = Inr (Fin 5) \<and>
   calculate (Fin 50) NaN (Fin 0) (Fin 0) (Fin 0) = Inr (Fin 1) \<and>
   calculate (Fin 50) PInf (Fin 0) (Fin 0) (Fin 0) = Inr (Fin 5) \<and>
   calculate (Fin 50) NInf (Fin 0) (Fin 0) (Fin 0) = Inr (Fin 1)"
  by (simp add: calculate_def Let_def py_min_def py_max_def py_sub_def inf_signed_def
      round1_def rint_def)

text \<open>
  C7, as the code behaves: \<^verbatim>\<open>StarRating.calculate\<close> rejects no argument. In every
  float arithmetic, for all arguments, finite or not, for which the power is a float, it
  returns a rating, and the rating is 1, 5 or a value strictly between them.
\<close>

theorem calculate_never_rejects:
  assumes "f_pow_lit a (f_div_lit a prob 20) (15 / 10) = Inr pw"
  shows "\<exists>r. StarRating_calculate a prob md oc vol ts = Inr r \<and>
           (r = f_lit a 1 \<or> r = f_lit a 5 \<or> (f_lt a (f_lit a 1) r \<and> f_lt a r (f_lit a 5)))"
  using assms
  by (simp add: StarRating_calculate_def Let_def builtin_min_def builtin_max_def)

theorem calculate_never_rejects_witness:
  "f_pow_lit exact (f_div_lit exact PInf 20) (15 / 10) = Inr PInf \<and>
   (\<exists>r. StarRating_calculate exact PInf NaN NInf (Fin (- 2)) PInf = Inr r \<and>
      (r = f_lit exact 1 \<or> r = f_lit exact 5 \<or>
       (f_lt exact (f_lit exact 1) r \<and> f_lt exact r (f_lit exact 5)))) \<and>
   StarRating_calculate exact PInf NaN NInf (Fin (- 2)) PInf = Inr (Fin 1)"
proof -
  have p: "f_pow_lit exact (f_div_lit exact PInf 20) (15 / 10) = Inr PInf"
    by (simp add: exact_def)
  have v: "StarRating_calculate exact PInf NaN NInf (Fin (- 2)) PInf = Inr (Fin 1)"
    by (simp add: calculate_exact calculate_def Let_def py_min_def py_max_def py_sub_def
        inf_signed_def)
  show ?thesis
    using p v calculate_never_rejects [OF p, of NaN NInf "Fin (- 2)" PInf] by blast
qed

section \<open>The derived signals (C8)\<close>

text \<open>
  C8: the rating of a returned result is computed from the fused probability and the four
  signals: the mean difference \<open>(combined_avg - target) / 5\<close>, the over consistency
  \<open>home.over_rate + away.over_rate - 1\<close>, the volatility, which is the population standard
  deviation (divisor 2) of the home team's average and allowance, that is half their
  distance, and the trend strength \<open>home.over_rate - away.over_rate\<close>.
\<close>

theorem derived_signals:
  assumes "fst (simulate_game g s home away target) = Inr res"
  shows "mean_diff (combined_avg res) target = (combined_avg res - target) / 5 \<and>
         over_consistency home away = over_rate home + over_rate away - 1 \<and>
         volatility home =
           sqrt (((avg home - (avg home + allow home) / 2)\<^sup>2 +
                  (allow home - (avg home + allow home) / 2)\<^sup>2) / 2) \<and>
         volatility home = \<bar>avg home - allow home\<bar> / 2 \<and>
         trend_strength home away = over_rate home - over_rate away \<and>
         calculate (Fin (probability res)) (Fin ((combined_avg res - target) / 5))
           (Fin (over_rate home + over_rate away - 1))
           (Fin (sqrt (((avg home - (avg home + allow home) / 2)\<^sup>2 +
                  (allow home - (avg home + allow home) / 2)\<^sup>2) / 2)))
           (Fin (over_rate home - over_rate away)) = Inr (stars res)"
proof -
  have v: "volatility home =
           sqrt (((avg home - (avg home + allow home) / 2)\<^sup>2 +
                  (allow home - (avg home + allow home) / 2)\<^sup>2) / 2)"
    by (simp add: volatility_def np_std_def np_mean_def)
  have w: "volatility home = \<bar>avg home - allow home\<bar> / 2"
    by (simp add: volatility_def np_std_pair)
  show ?thesis
    using simulate_game_fields(6) [OF assms] v w
    by (simp add: mean_diff_def over_consistency_def trend_strength_def)
qed

theorem derived_signals_witness:
  "fst (simulate_game (fixed_rng 10000 110 100) ()
     \<lparr>avg = 100, allow = 100, over_rate = 1 / 2\<rparr>
     \<lparr>avg = 110, allow = 110, over_rate = 2 / 5\<rparr> 210) =
   Inr \<lparr>combined_avg = 42943 / 200, probability = 20, stars = Fin (22 / 10),
        mc_prob = 20, nb_prob = 20, poisson_prob = 20,
        home_score = 4223 / 40, away_score = 5457 / 50, recommendation = Under\<rparr> \<and>
   mean_diff (42943 / 200) 210 = 943 / 1000 \<and>
   over_consistency \<lparr>avg = 100, allow = 100, over_rate = 1 / 2\<rparr>
     \<lparr>avg = 110, allow = 110, over_rate = 2 / 5\<rparr> = - (1 / 10) \<and>
   volatility \<lparr>avg = 100, allow = 100, over_rate = 1 / 2\<rparr> = 0 \<and>
   trend_strength \<lparr>avg = 100, allow = 100, over_rate = 1 / 2\<rparr>
     \<lparr>avg = 110, allow = 110, over_rate = 2 / 5\<rparr> = 1 / 10 \<and>
   calculate (Fin 20) (Fin (943 / 1000)) (Fin (- (1 / 10))) (Fin 0) (Fin (1 / 10)) =
     Inr (Fin (22 / 10))"
  using run_A derived_signals [OF run_A] by simp

section \<open>Monotonicity in the home average (C9)\<close>

text \<open>
  C9: with the away team and the target fixed, two valid home teams that differ only in
  their average, the second average at least the first, give a home score and a combined
  average under the second that are at least those under the first.
\<close>

theorem home_avg_monotone:
  assumes "fst (simulate_game g s home away target) = Inr r"
    and "fst (simulate_game g' s' home' away target) = Inr r'"
    and "valid_team home" and "valid_team home'" and "valid_team away"
    and "allow home' = allow home" and "over_rate home' = over_rate home"
    and "avg home \<le> avg home'"
  shows "home_score r \<le> home_score r' \<and> combined_avg r \<le> combined_avg r'"
proof -
  note f = simulate_game_fields(1-3) [OF assms(1)]
  note f' = simulate_game_fields(1-3) [OF assms(2)]
  have "0 \<le> 1 + over_rate home * (5 / 100)"
    using assms(3) by (simp add: valid_team_def)
  then have h: "home_score r \<le> home_score r'"
    using assms(7,8) by (simp add: f(1) f'(1) weighted_score_def mult_right_mono)
  have "away_score r = away_score r'"
    using assms(6) by (simp add: f(2) f'(2))
  with h show ?thesis by (simp add: f(3) f'(3))
qed

theorem home_avg_monotone_witness:
  "fst (simulate_game (fixed_rng 10000 110 100) ()
     \<lparr>avg = 100, allow = 100, over_rate = 1 / 2\<rparr>
     \<lparr>avg = 110, allow = 110, over_rate = 2 / 5\<rparr> 210) =
   Inr \<lparr>combined_avg = 42943 / 200, probability = 20, stars = Fin (22 / 10),
        mc_prob = 20, nb_prob = 20, poisson_prob = 20,
        home_score = 4223 / 40, away_score = 5457 / 50, recommendation = Under\<rparr> \<and>
   fst (simulate_game (fixed_rng 30000 110 100) ()
     \<lparr>avg = 120, allow = 100, over_rate = 1 / 2\<rparr>
     \<lparr>avg = 110, allow = 110, over_rate = 2 / 5\<rparr> 210) =
   Inr \<lparr>combined_avg = 45813 / 200, probability = 60, stars = Fin 5,
        mc_prob = 60, nb_prob = 60, poisson_prob = 60,
        home_score = 4797 / 40, away_score = 5457 / 50, recommendation = Over\<rparr> \<and>
   valid_team \<lparr>avg = 100, allow = 100, over_rate = 1 / 2\<rparr> \<and>
   valid_team \<lparr>avg = 120, allow = 100, over_rate = 1 / 2\<rparr> \<and>
   valid_team \<lparr>avg = 110, allow = 110, over_rate = 2 / 5\<rparr> \<and>
   (100 :: real) \<le> 120 \<and>
   (4223 / 40 :: real) \<le> 4797 / 40 \<and> (42943 / 200 :: real) \<le> 45813 / 200"
proof -
  have v: "valid_team \<lparr>avg = 100, allow = 100, over_rate = 1 / 2\<rparr>"
    "valid_team \<lparr>avg = 120, allow = 100, over_rate = 1 / 2\<rparr>"
    "valid_team \<lparr>avg = 110, allow = 110, over_rate = 2 / 5\<rparr>"
    by (simp_all add: valid_team_def)
  show ?thesis
    using run_A run_higher_avg v home_avg_monotone [OF run_A run_higher_avg v]
    by simp
qed

section \<open>Exchanging the teams (C10)\<close>

text \<open>
  C10: exchanging the home and the away argument exchanges the home score and the away
  score and leaves the combined average as it is. The signals are not symmetric: the trend
  strength changes its sign, and the volatility is that of the other team, which is the
  same only when both teams have the same distance between average and allowance; for
  the teams (110, 108, 0.55) and (112, 111, 0.50) both signals differ.
\<close>

theorem swap_teams:
  assumes "fst (simulate_game g s home away target) = Inr r"
    and "fst (simulate_game g' s' away home target) = Inr r'"
  shows "home_score r' = away_score r \<and> away_score r' = home_score r \<and>
         combined_avg r' = combined_avg r \<and>
         trend_strength away home = - trend_strength home away \<and>
         (volatility away = volatility home \<longleftrightarrow>
            \<bar>avg away - allow away\<bar> = \<bar>avg home - allow home\<bar>) \<and>
         volatility \<lparr>avg = 110, allow = 108, over_rate = 55 / 100\<rparr> \<noteq>
           volatility \<lparr>avg = 112, allow = 111, over_rate = 50 / 100\<rparr> \<and>
         trend_strength \<lparr>avg = 110, allow = 108, over_rate = 55 / 100\<rparr>
             \<lparr>avg = 112, allow = 111, over_rate = 50 / 100\<rparr> \<noteq>
           trend_strength \<lparr>avg = 112, allow = 111, over_rate = 50 / 100\<rparr>
             \<lparr>avg = 110, allow = 108, over_rate = 55 / 100\<rparr>"
  using simulate_game_fields(1-3) [OF assms(1)] simulate_game_fields(1-3) [OF assms(2)]
  by (simp add: trend_strength_def volatility_def np_std_pair)

theorem swap_teams_witness:
  "fst (simulate_game (fixed_rng 10000 110 100) ()
     \<lparr>avg = 100, allow = 100, over_rate = 1 / 2\<rparr>
     \<lparr>avg = 110, allow = 110, over_rate = 2 / 5\<rparr> 210) =
   Inr \<lparr>combined_avg = 42943 / 200, probability = 20, stars = Fin (22 / 10),
        mc_prob = 20, nb_prob = 20, poisson_prob = 20,
        home_score = 4223 / 40, away_score = 5457 / 50, recommendation = Under\<rparr> \<and>
   fst (simulate_game (fixed_rng 10000 110 100) ()
     \<lparr>avg = 110, allow = 110, over_rate = 2 / 5\<rparr>
     \<lparr>avg = 100, allow = 100, over_rate = 1 / 2\<rparr> 210) =
   Inr \<lparr>combined_avg = 42943 / 200, probability = 20, stars = Fin (22 / 10),
        mc_prob = 20, nb_prob = 20, poisson_prob = 20,
        home_score = 5457 / 50, away_score = 4223 / 40, recommendation = Under\<rparr> \<and>
   trend_strength \<lparr>avg = 110, allow = 110, over_rate = 2 / 5\<rparr>
     \<lparr>avg = 100, allow = 100, over_rate = 1 / 2\<rparr> =
   - trend_strength \<lparr>avg = 100, allow = 100, over_rate = 1 / 2\<rparr>
     \<lparr>avg = 110, allow = 110, over_rate = 2 / 5\<rparr>"
  using run_A run_B swap_teams [OF run_A run_B] by simp

end
